theory Spec2Isabelle
  imports Main "HOL-Library.Word"
begin

section \<open>JavaScript values and the browser\<close>

text \<open>
  A value of type \<^verbatim>\<open>string | null\<close> is a \<open>string option\<close>, with \<open>None\<close> for \<^verbatim>\<open>null\<close>:
  what \<^verbatim>\<open>localStorage.getItem\<close> returns, and the two fields of the session. A field of the
  session that \<^verbatim>\<open>setToken\<close> is handed \<^verbatim>\<open>undefined\<close> is \<open>None\<close> too: the code reads the
  fields only through tests that treat \<^verbatim>\<open>null\<close> and \<^verbatim>\<open>undefined\<close> alike.
  \<open>truthy\<close> is the test JavaScript applies in \<^verbatim>\<open>if (v)\<close>, \<^verbatim>\<open>!v\<close>, \<^verbatim>\<open>!!v\<close> and
  \<^verbatim>\<open>a && b\<close>: \<^verbatim>\<open>null\<close>, \<^verbatim>\<open>undefined\<close> and the empty string are falsy.
\<close>

definition truthy :: "string option \<Rightarrow> bool" where
  "truthy v = (case v of None \<Rightarrow> False | Some s \<Rightarrow> s \<noteq> [])"

text \<open>
  The text of a \<^verbatim>\<open>string | null\<close> value inside a template literal: \<^verbatim>\<open>null\<close> gives
  the text \<^verbatim>\<open>null\<close>.
\<close>

definition ToString :: "string option \<Rightarrow> string" where
  "ToString v = (case v of None \<Rightarrow> ''null'' | Some s \<Rightarrow> s)"

text \<open>
  Text typed by the user is a JavaScript string in full: a sequence of UTF-16 code
  units, since \<^verbatim>\<open>trim\<close> depends on which characters it holds. Keys, tokens, names,
  addresses and error texts are \<open>string\<close>: the code compares them, tests them for
  emptiness and concatenates them, and does nothing else with their characters.
  \<open>utf16\<close> gives the code units of an ASCII text.
\<close>

type_synonym js_string = "16 word list"

definition utf16 :: "string \<Rightarrow> js_string" where
  "utf16 s = map of_char s"

text \<open>
  \<^verbatim>\<open>String.prototype.trim\<close> removes white space and line terminators at both ends. White
  space is TAB, VT, FF, the byte order mark U+FEFF and the space separators of Unicode
  (U+0020, U+00A0, U+1680, U+2000 to U+200A, U+202F, U+205F, U+3000); the line
  terminators are LF, CR, U+2028 and U+2029. All of them are single code units.
\<close>

definition is_space :: "16 word \<Rightarrow> bool" where
  "is_space c =
     (c \<in> {0x0009, 0x000A, 0x000B, 0x000C, 0x000D, 0x0020, 0x00A0, 0x1680,
            0x2028, 0x2029, 0x202F, 0x205F, 0x3000, 0xFEFF}
      \<or> (0x2000 \<le> c \<and> c \<le> 0x200A))"

definition trim :: "js_string \<Rightarrow> js_string" where
  "trim s = rev (dropWhile is_space (rev (dropWhile is_space s)))"

text \<open>The text a template literal gives for a non-negative integer: its decimal digits.\<close>

definition digit :: "nat \<Rightarrow> char" where
  "digit d = ''0123456789'' ! d"

fun decimal :: "nat \<Rightarrow> string" where
  "decimal n = (if n < 10 then [digit n] else decimal (n div 10) @ [digit (n mod 10)])"

declare decimal.simps [simp del]

text \<open>
  Thrown values. The source throws \<^verbatim>\<open>new Error(message)\<close>; a \<^verbatim>\<open>fetch\<close> that cannot reach
  the host rejects with a \<^verbatim>\<open>TypeError\<close>, and \<^verbatim>\<open>response.json()\<close> on a body that is not
  JSON rejects with a \<^verbatim>\<open>SyntaxError\<close>.
\<close>

datatype js_error = Error string | TypeError | SyntaxError

text \<open>
  A parsed JSON object whose properties are strings or \<^verbatim>\<open>null\<close>. Reading a property
  gives \<open>None\<close>, which is \<^verbatim>\<open>undefined\<close>, when the object has no such property.
\<close>

datatype json = JNull | JString string

type_synonym json_object = "string \<rightharpoonup> json"

text \<open>
  What becomes of a property that was read. \<open>String_of\<close> is the text
  \<^verbatim>\<open>localStorage.setItem\<close> stores for it: \<^verbatim>\<open>undefined\<close> and \<^verbatim>\<open>null\<close> are stored as
  the texts \<^verbatim>\<open>undefined\<close> and \<^verbatim>\<open>null\<close>. \<open>string_value\<close> is what a field of the session
  holds after a setter was called with it.
\<close>

definition String_of :: "json option \<Rightarrow> string" where
  "String_of v =
     (case v of None \<Rightarrow> ''undefined'' | Some JNull \<Rightarrow> ''null'' | Some (JString s) \<Rightarrow> s)"

definition string_value :: "json option \<Rightarrow> string option" where
  "string_value v = (case v of Some (JString s) \<Rightarrow> Some s | _ \<Rightarrow> None)"

datatype request_body =
  URLSearchParams "(string \<times> string) list"
| JSON_stringify "(string \<times> js_string) list"

record request =
  url :: string
  http_method :: string
  headers :: "(string \<times> string) list"
  body :: request_body

text \<open>
  A response: its status, and what \<^verbatim>\<open>response.json()\<close> resolves to (\<open>None\<close> when it
  rejects). \<^verbatim>\<open>response.ok\<close> is the Fetch API's getter: the status is in 200..299.
\<close>

record response =
  status :: nat
  json :: "json_object option"

definition ok :: "response \<Rightarrow> bool" where
  "ok r = (200 \<le> status r \<and> status r \<le> 299)"

datatype fetch_result = Rejected | Resolved response

text \<open>
  The browser: persisted \<^verbatim>\<open>localStorage\<close> and the log of the requests that \<^verbatim>\<open>fetch\<close> was
  called with, oldest first. An operation that issues no network call leaves \<open>network\<close>
  as it was.
\<close>

record browser =
  localStorage :: "string \<rightharpoonup> string"
  network :: "request list"

text \<open>
  \<^verbatim>\<open>import.meta.env.VITE_BACKEND_URL || 'http://localhost:8000'\<close>, where \<open>env\<close> is the
  variable, \<open>None\<close> when it is not set.
\<close>

definition BACKEND_URL :: "string option \<Rightarrow> string" where
  "BACKEND_URL env =
     (case env of
        None \<Rightarrow> ''http://localhost:8000''
      | Some u \<Rightarrow> if u = [] then ''http://localhost:8000'' else u)"

section \<open>Chat transport: \<^verbatim>\<open>sendChatMessage\<close>\<close>

text \<open>
  \<open>res\<close> is what the one \<^verbatim>\<open>fetch\<close> of the function settles to, if it is called.
  The result is the value the returned promise settles to (\<open>Inl\<close> a rejection) and the
  browser afterwards.
\<close>

definition chat_request :: "string option \<Rightarrow> string \<Rightarrow> js_string \<Rightarrow> request" where
  "chat_request env tok message =
     \<lparr>url = BACKEND_URL env @ ''/api/chat'',
      http_method = ''POST'',
      headers = [(''Content-Type'', ''application/json''),
                 (''Authorization'', ''Bearer '' @ tok)],
      body = JSON_stringify [(''message'', message)]\<rparr>"

definition sendChatMessage ::
  "string option \<Rightarrow> fetch_result \<Rightarrow> js_string \<Rightarrow> browser \<Rightarrow> (js_error + json_object) \<times> browser" where
  "sendChatMessage env res message b =
     (let tok = localStorage b ''access_token'' in
      if \<not> truthy tok then (Inl (Error ''Not authenticated''), b)
      else
        let b' = b\<lparr>network := network b @ [chat_request env (ToString tok) message]\<rparr> in
        case res of
          Rejected \<Rightarrow> (Inl TypeError, b')
        | Resolved r \<Rightarrow>
            if \<not> ok r then
              (if status r = 401 then (Inl (Error ''Session expired. Please login again.''), b')
               else (Inl (Error (''Backend error: '' @ decimal (status r))), b'))
            else
              (case json r of
                 None \<Rightarrow> (Inl SyntaxError, b')
               | Some data \<Rightarrow> (Inr data, b')))"

text \<open>The names the specification gives to the errors the transport and the provider throw.\<close>

definition Unauthenticated :: js_error where
  "Unauthenticated = Error ''Not authenticated''"

definition SessionExpired :: js_error where
  "SessionExpired = Error ''Session expired. Please login again.''"

definition BackendError :: "nat \<Rightarrow> js_error" where
  "BackendError code = Error (''Backend error: '' @ decimal code)"

definition AuthenticationFailed :: js_error where
  "AuthenticationFailed = Error ''Invalid username or password''"

section \<open>Session provider: \<^verbatim>\<open>AuthProvider\<close>\<close>

record auth =
  token :: "string option"
  username :: "string option"

text \<open>\<^verbatim>\<open>useState(null)\<close> twice, then the effect that runs once after the first render.\<close>

definition initial_auth :: auth where
  "initial_auth = \<lparr>token = None, username = None\<rparr>"

definition rehydrate :: "auth \<times> browser \<Rightarrow> auth \<times> browser" where
  "rehydrate = (\<lambda>(a, b).
     let storedToken = localStorage b ''access_token'';
         storedUsername = localStorage b ''username''
     in if truthy storedToken \<and> truthy storedUsername
        then (a\<lparr>token := storedToken, username := storedUsername\<rparr>, b)
        else (a, b))"

definition AuthProvider_mount :: "browser \<Rightarrow> auth \<times> browser" where
  "AuthProvider_mount b = rehydrate (initial_auth, b)"

definition login_request :: "string option \<Rightarrow> string \<Rightarrow> string \<Rightarrow> request" where
  "login_request env uname password =
     \<lparr>url = BACKEND_URL env @ ''/token'',
      http_method = ''POST'',
      headers = [(''Content-Type'', ''application/x-www-form-urlencoded'')],
      body = URLSearchParams [(''username'', uname), (''password'', password)]\<rparr>"

text \<open>
  \<open>login\<close>: the state passed in is the one the continuation after the \<^verbatim>\<open>await\<close> acts on;
  the function reads none of it before. \<open>data ''access_token''\<close> is \<^verbatim>\<open>data.access_token\<close>,
  \<^verbatim>\<open>undefined\<close> when the body has no such property.
\<close>

definition login ::
  "string option \<Rightarrow> fetch_result \<Rightarrow> string \<Rightarrow> string \<Rightarrow> auth \<times> browser
     \<Rightarrow> (js_error + unit) \<times> auth \<times> browser" where
  "login env res uname password = (\<lambda>(a, b).
     let b' = b\<lparr>network := network b @ [login_request env uname password]\<rparr> in
     case res of
       Rejected \<Rightarrow> (Inl TypeError, a, b')
     | Resolved r \<Rightarrow>
         if \<not> ok r then (Inl (Error ''Invalid username or password''), a, b')
         else
           (case json r of
              None \<Rightarrow> (Inl SyntaxError, a, b')
            | Some data \<Rightarrow>
                (Inr (),
                 a\<lparr>token := string_value (data ''access_token''), username := Some uname\<rparr>,
                 b'\<lparr>localStorage := (localStorage b')
                      (''access_token'' \<mapsto> String_of (data ''access_token''),
                       ''username'' \<mapsto> uname)\<rparr>)))"

definition logout :: "auth \<times> browser \<Rightarrow> auth \<times> browser" where
  "logout = (\<lambda>(a, b).
     (a\<lparr>token := None, username := None\<rparr>,
      b\<lparr>localStorage := (localStorage b)(''access_token'' := None, ''username'' := None)\<rparr>))"

definition isAuthenticated :: "auth \<Rightarrow> bool" where
  "isAuthenticated a = truthy (token a)"

text \<open>
  The session invariant of the data model: \<open>token\<close> and \<open>username\<close> are both present or
  both absent, logged in or logged out. Present is what the code tests wherever it asks
  for a field, \<^verbatim>\<open>!!token\<close> in \<open>isAuthenticated\<close> and \<^verbatim>\<open>storedToken && storedUsername\<close> in
  the rehydration: a string that is not empty.
\<close>

definition session_invariant :: "auth \<Rightarrow> bool" where
  "session_invariant a = (truthy (token a) = truthy (username a))"

text \<open>
  The operations a mounted provider offers, and a run of them from a given state.
  \<open>Login res uname password\<close> is a call of \<open>login\<close> whose request settles to \<open>res\<close>.
\<close>

datatype auth_op = Login fetch_result string string | Logout

fun apply_op :: "string option \<Rightarrow> auth \<times> browser \<Rightarrow> auth_op \<Rightarrow> auth \<times> browser" where
  "apply_op env s (Login res uname password) = snd (login env res uname password s)"
| "apply_op env s Logout = logout s"

definition run :: "string option \<Rightarrow> auth_op list \<Rightarrow> browser \<Rightarrow> auth \<times> browser" where
  "run env ops b = foldl (apply_op env) (AuthProvider_mount b) ops"

text \<open>
  A login as the login form and the authentication endpoint make it: when the answer has
  a success status and a JSON body, the user name submitted is not empty and the body
  has an \<^verbatim>\<open>access_token\<close> that is a string and not empty.
\<close>

fun well_formed_login :: "auth_op \<Rightarrow> bool" where
  "well_formed_login (Login Rejected uname password) = True"
| "well_formed_login (Login (Resolved r) uname password) =
     (case json r of
        None \<Rightarrow> True
      | Some data \<Rightarrow>
          \<not> ok r \<or> (truthy (string_value (data ''access_token'')) \<and> uname \<noteq> []))"
| "well_formed_login Logout = True"

section \<open>Input box: \<^verbatim>\<open>ChatInput\<close>\<close>

text \<open>
  The component's own state is the text of the box, \<open>message\<close>. \<open>onSend\<close> and
  \<open>disabled\<close> are its props; \<open>onSend\<close> acts on the state of the parent that passed it.
\<close>

definition handleChange :: "js_string \<Rightarrow> js_string \<times> 'p \<Rightarrow> js_string \<times> 'p" where
  "handleChange v = (\<lambda>(message, parent). (v, parent))"

definition handleSubmit ::
  "(js_string \<Rightarrow> 'p \<Rightarrow> 'p) \<Rightarrow> bool \<Rightarrow> js_string \<times> 'p \<Rightarrow> js_string \<times> 'p" where
  "handleSubmit onSend disabled = (\<lambda>(message, parent).
     if trim message \<noteq> [] \<and> \<not> disabled
     then ([], onSend (trim message) parent)
     else (message, parent))"

definition handleKeyDown ::
  "string \<Rightarrow> bool \<Rightarrow> (js_string \<Rightarrow> 'p \<Rightarrow> 'p) \<Rightarrow> bool \<Rightarrow> js_string \<times> 'p
     \<Rightarrow> js_string \<times> 'p" where
  "handleKeyDown key shiftKey onSend disabled s =
     (if key = ''Enter'' \<and> \<not> shiftKey then handleSubmit onSend disabled s else s)"

section \<open>Chat page: \<^verbatim>\<open>Index\<close>\<close>

datatype role = User | Assistant

record Message =
  role :: role
  content :: js_string

record toast =
  title :: string
  description :: string
  variant :: string

text \<open>
  The state of the page: the conversation log, the busy flag, the notifications shown,
  and \<open>outstanding\<close>, the number of calls of \<open>handleSendMessage\<close> whose \<^verbatim>\<open>await\<close> has not
  settled yet (the sends in flight).
\<close>

record Index =
  messages :: "Message list"
  isLoading :: bool
  toasts :: "toast list"
  outstanding :: nat

definition initial_Index :: Index where
  "initial_Index = \<lparr>messages = [], isLoading = False, toasts = [], outstanding = 0\<rparr>"

definition assistantMessage :: Message where
  "assistantMessage =
     \<lparr>role = Assistant,
      content = utf16 (''I'' @ [CHR 0x27] @
        ''m ready to help you analyze your Google Analytics data! '' @
        ''However, the backend integration is not yet configured. '' @
        ''Please connect the FastAPI backend or set up Lovable Cloud Edge Functions '' @
        ''to enable full functionality.'')\<rparr>"

text \<open>
  \<open>handleSendMessage\<close> up to its \<^verbatim>\<open>await\<close>, and the two ways it continues. What it
  awaits is a timer of one second, which the source marks as the place of the call to the
  backend; no request is made and no answer is read.
\<close>

definition handleSendMessage :: "js_string \<Rightarrow> Index \<Rightarrow> Index" where
  "handleSendMessage c s =
     s\<lparr>messages := messages s @ [\<lparr>role = User, content = c\<rparr>],
       isLoading := True,
       outstanding := Suc (outstanding s)\<rparr>"

definition handleSendMessage_resolved :: "Index \<Rightarrow> Index" where
  "handleSendMessage_resolved s =
     s\<lparr>messages := messages s @ [assistantMessage],
       isLoading := False,
       outstanding := outstanding s - 1\<rparr>"

definition handleSendMessage_rejected :: "Index \<Rightarrow> Index" where
  "handleSendMessage_rejected s =
     s\<lparr>toasts := toasts s @
         [\<lparr>title = ''Error'',
           description = ''Failed to send message. Please try again.'',
           variant = ''destructive''\<rparr>],
       isLoading := False,
       outstanding := outstanding s - 1\<rparr>"

text \<open>
  The page as a transition system. A state is the text of the input box and the state of
  \<open>Index\<close>, which renders \<^verbatim>\<open><ChatInput onSend={handleSendMessage} disabled={isLoading} />\<close>.
  Each event handler runs to completion on the state last rendered; a pending \<^verbatim>\<open>await\<close>
  settles only while a send is outstanding.
\<close>

inductive reachable :: "js_string \<times> Index \<Rightarrow> bool" where
  init: "reachable ([], initial_Index)"
| change: "reachable s \<Longrightarrow> reachable (handleChange v s)"
| submit: "reachable s \<Longrightarrow> reachable (handleSubmit handleSendMessage (isLoading (snd s)) s)"
| keydown: "reachable s \<Longrightarrow>
     reachable (handleKeyDown key shiftKey handleSendMessage (isLoading (snd s)) s)"
| resolve: "reachable s \<Longrightarrow> 0 < outstanding (snd s) \<Longrightarrow>
     reachable (fst s, handleSendMessage_resolved (snd s))"
| reject: "reachable s \<Longrightarrow> 0 < outstanding (snd s) \<Longrightarrow>
     reachable (fst s, handleSendMessage_rejected (snd s))"

section \<open>Facts about the JavaScript helpers\<close>

lemma truthy_simps: "truthy None = False" "truthy (Some s) = (s \<noteq> [])"
  by (simp_all add: truthy_def)

lemma less_10_cases:
  "(a::nat) < 10 \<Longrightarrow> a = 0 \<or> a = 1 \<or> a = 2 \<or> a = 3 \<or> a = 4 \<or> a = 5 \<or> a = 6 \<or> a = 7 \<or> a = 8 \<or> a = 9"
  by arith

lemma digit_inj:
  assumes "a < 10" and "b < 10" and "digit a = digit b"
  shows "a = b"
  using less_10_cases [OF assms(1)] less_10_cases [OF assms(2)] assms(3)
  by (auto simp: digit_def)

lemma decimal_not_Nil: "decimal n \<noteq> []"
  by (subst decimal.simps) simp

lemma decimal_length: "10 \<le> n \<Longrightarrow> 2 \<le> length (decimal n)"
  using decimal_not_Nil [of "n div 10"]
  by (subst decimal.simps) (simp add: Suc_le_eq)

lemma decimal_inj: "decimal n = decimal m \<Longrightarrow> n = m"
proof (induction n arbitrary: m rule: decimal.induct)
  case (1 n)
  show ?case
  proof (cases "n < 10")
    case True
    show ?thesis
    proof (cases "m < 10")
      case mt: True
      from 1(2) True mt have "digit n = digit m"
        by (simp add: decimal.simps [of n] decimal.simps [of m])
      with True mt show ?thesis by (simp add: digit_inj)
    next
      case False
      then have "2 \<le> length (decimal m)" by (simp add: decimal_length)
      moreover from True have "length (decimal n) = 1" by (simp add: decimal.simps [of n])
      ultimately show ?thesis using 1(2) by simp
    qed
  next
    case False
    show ?thesis
    proof (cases "m < 10")
      case True
      from False have "2 \<le> length (decimal n)" by (simp add: decimal_length)
      moreover from True have "length (decimal m) = 1" by (simp add: decimal.simps [of m])
      ultimately show ?thesis using 1(2) by simp
    next
      case mf: False
      from 1(2) False mf
      have eq: "decimal (n div 10) = decimal (m div 10)" "digit (n mod 10) = digit (m mod 10)"
        by (simp_all add: decimal.simps [of n] decimal.simps [of m])
      from 1(1) [OF False eq(1)] have "n div 10 = m div 10" .
      moreover from eq(2) have "n mod 10 = m mod 10" by (auto intro: digit_inj)
      ultimately show ?thesis by (metis div_mult_mod_eq)
    qed
  qed
qed

lemma trim_Nil_iff: "trim s = [] \<longleftrightarrow> list_all is_space s"
proof -
  have "dropWhile is_space (rev (dropWhile is_space s)) = [] \<longleftrightarrow> dropWhile is_space s = []"
  proof
    assume "dropWhile is_space (rev (dropWhile is_space s)) = []"
    then have *: "\<forall>c \<in> set (dropWhile is_space s). is_space c"
      unfolding dropWhile_eq_Nil_conv by simp
    show "dropWhile is_space s = []"
    proof (rule ccontr)
      assume ne: "dropWhile is_space s \<noteq> []"
      then have "\<not> is_space (hd (dropWhile is_space s))" by (rule hd_dropWhile)
      with * ne show False by (meson hd_in_set)
    qed
  next
    assume "dropWhile is_space s = []"
    then show "dropWhile is_space (rev (dropWhile is_space s)) = []"
      by (simp only: rev.simps dropWhile.simps)
  qed
  then show ?thesis
    by (simp add: trim_def list_all_iff)
qed

section \<open>The names of the errors\<close>

lemma error_names_distinct:
  "Unauthenticated \<noteq> SessionExpired" "Unauthenticated \<noteq> BackendError code"
  "SessionExpired \<noteq> BackendError code" "AuthenticationFailed \<noteq> Unauthenticated"
  by (simp_all add: Unauthenticated_def SessionExpired_def BackendError_def AuthenticationFailed_def)

text \<open>The status code can be read back from a \<open>BackendError\<close>: the error carries it.\<close>

lemma BackendError_inj: "BackendError c = BackendError d \<longleftrightarrow> c = d"
  by (auto simp: BackendError_def dest: decimal_inj)

section \<open>Chat transport\<close>

text \<open>
  Claim C1. For every message, when \<^verbatim>\<open>localStorage\<close> holds no \<^verbatim>\<open>access_token\<close>,
  \<open>sendChatMessage\<close> rejects with \<open>Unauthenticated\<close> and the browser is left as it was,
  its network log included: \<^verbatim>\<open>fetch\<close> is not reached, whatever the backend would answer.
\<close>

theorem sendChatMessage_without_token:
  "localStorage b ''access_token'' = None \<Longrightarrow>
   sendChatMessage env res message b = (Inl Unauthenticated, b)"
  by (simp add: sendChatMessage_def Unauthenticated_def truthy_def)

theorem sendChatMessage_without_token_witness:
  "localStorage \<lparr>localStorage = Map.empty, network = []\<rparr> ''access_token'' = None \<and>
   sendChatMessage None
     (Resolved \<lparr>status = 200, json = Some [''response'' \<mapsto> JString ''hi'']\<rparr>) (utf16 ''hello'')
     \<lparr>localStorage = Map.empty, network = []\<rparr>
   = (Inl (Error ''Not authenticated''), \<lparr>localStorage = Map.empty, network = []\<rparr>)"
  using sendChatMessage_without_token [of "\<lparr>localStorage = Map.empty, network = []\<rparr>" None
      "Resolved \<lparr>status = 200, json = Some [''response'' \<mapsto> JString ''hi'']\<rparr>" "utf16 ''hello''"]
  by (simp add: Unauthenticated_def)

text \<open>The same holds for a stored token that is the empty string, which \<^verbatim>\<open>!token\<close> rejects too.\<close>

lemma sendChatMessage_falsy_token:
  "\<not> truthy (localStorage b ''access_token'') \<Longrightarrow>
   sendChatMessage env res message b = (Inl Unauthenticated, b)"
  by (simp add: sendChatMessage_def Unauthenticated_def)

text \<open>
  Claim C2. For every message sent with a token present (one that passes the test
  \<^verbatim>\<open>!token\<close> of the source), a response with status 401 makes \<open>sendChatMessage\<close> reject
  with \<open>SessionExpired\<close>, and a response with any other non-success status makes it
  reject with \<open>BackendError\<close> of that status.
\<close>

theorem sendChatMessage_non_success:
  "truthy (localStorage b ''access_token'') \<Longrightarrow>
   (status r = 401 \<longrightarrow> fst (sendChatMessage env (Resolved r) message b) = Inl SessionExpired) \<and>
   (\<not> ok r \<and> status r \<noteq> 401 \<longrightarrow>
      fst (sendChatMessage env (Resolved r) message b) = Inl (BackendError (status r)))"
  by (simp add: sendChatMessage_def SessionExpired_def BackendError_def Let_def ok_def)

theorem sendChatMessage_non_success_witness:
  "truthy (localStorage \<lparr>localStorage = [''access_token'' \<mapsto> ''t0k''], network = []\<rparr> ''access_token'') \<and>
   fst (sendChatMessage None (Resolved \<lparr>status = 401, json = None\<rparr>) (utf16 ''hello'')
     \<lparr>localStorage = [''access_token'' \<mapsto> ''t0k''], network = []\<rparr>)
   = Inl (Error ''Session expired. Please login again.'') \<and>
   \<not> ok \<lparr>status = 500, json = None\<rparr> \<and>
   fst (sendChatMessage None (Resolved \<lparr>status = 500, json = None\<rparr>) (utf16 ''hello'')
     \<lparr>localStorage = [''access_token'' \<mapsto> ''t0k''], network = []\<rparr>)
   = Inl (Error ''Backend error: 500'')"
proof -
  let ?b = "\<lparr>localStorage = [''access_token'' \<mapsto> ''t0k''], network = []\<rparr>"
  have t: "truthy (localStorage ?b ''access_token'')" by (simp add: truthy_def)
  have d: "decimal 500 = ''500''" by (simp add: decimal.simps digit_def)
  from sendChatMessage_non_success [OF t, of "\<lparr>status = 401, json = None\<rparr>" None "utf16 ''hello''"]
    sendChatMessage_non_success [OF t, of "\<lparr>status = 500, json = None\<rparr>" None "utf16 ''hello''"]
  show ?thesis using t
    by (simp add: SessionExpired_def BackendError_def ok_def d)
qed

text \<open>
  On success the body of the response is returned as it is.
\<close>

lemma sendChatMessage_success:
  "truthy (localStorage b ''access_token'') \<Longrightarrow> ok r \<Longrightarrow> json r = Some data \<Longrightarrow>
   fst (sendChatMessage env (Resolved r) message b) = Inr data"
  by (simp add: sendChatMessage_def Let_def)

text \<open>
  Claim C3 says that for an empty or white-space-only message the send operation issues
  no network call. \<open>sendChatMessage\<close> does not look at the message: with a token stored
  it calls \<^verbatim>\<open>fetch\<close> for a message of two blanks.
\<close>

theorem sendChatMessage_blank_counterexample:
  "list_all is_space [0x20, 0x20] \<and>
   network (snd (sendChatMessage None
      (Resolved \<lparr>status = 200, json = Some [''response'' \<mapsto> JString ''hi'']\<rparr>)
      [0x20, 0x20] \<lparr>localStorage = [''access_token'' \<mapsto> ''t0k''], network = []\<rparr>))
   = [chat_request None ''t0k'' [0x20, 0x20]]"
  by (simp add: sendChatMessage_def truthy_def ToString_def is_space_def ok_def Let_def)

text \<open>
  Claim C3, as amended. The guard is in the input box: for every text that is empty or
  holds nothing but the white space and line terminators that \<^verbatim>\<open>trim\<close> removes,
  \<open>handleSubmit\<close> does not call \<open>onSend\<close>, whatever \<open>onSend\<close> is and whether the box is
  disabled or not, so no send starts and the state of the parent (a browser with its
  network log, in the instance below) stays as it was.
\<close>

theorem handleSubmit_blank:
  "list_all is_space message \<Longrightarrow>
   handleSubmit onSend disabled (message, parent) = (message, parent)"
  by (simp add: handleSubmit_def trim_Nil_iff)

theorem handleSubmit_blank_witness:
  "list_all is_space [0x20, 0xA0, 0x2003, 0x0A, 0xFEFF, 0x2028, 0x09] \<and>
   handleSubmit
     (\<lambda>m b. snd (sendChatMessage None
        (Resolved \<lparr>status = 200, json = Some [''response'' \<mapsto> JString ''hi'']\<rparr>) m b))
     False
     ([0x20, 0xA0, 0x2003, 0x0A, 0xFEFF, 0x2028, 0x09],
      \<lparr>localStorage = [''access_token'' \<mapsto> ''t0k''], network = []\<rparr>)
   = ([0x20, 0xA0, 0x2003, 0x0A, 0xFEFF, 0x2028, 0x09],
      \<lparr>localStorage = [''access_token'' \<mapsto> ''t0k''], network = []\<rparr>)"
proof -
  have blank: "list_all is_space [0x20, 0xA0, 0x2003, 0x0A, 0xFEFF, 0x2028, 0x09]"
    by (simp add: is_space_def)
  from handleSubmit_blank [OF blank] blank show ?thesis by simp
qed

text \<open>
  The guard is exact: a text with any other character in it is sent, trimmed, when the box
  is enabled.
\<close>

lemma handleSubmit_not_blank:
  "\<not> list_all is_space message \<Longrightarrow>
   handleSubmit onSend False (message, parent) = ([], onSend (trim message) parent)"
  by (simp add: handleSubmit_def trim_Nil_iff)

section \<open>Session provider\<close>

text \<open>
  Claim C4. For every prior state, a \<open>login\<close> whose request is answered with a
  non-success status rejects with \<open>AuthenticationFailed\<close> and leaves \<open>token\<close>,
  \<open>username\<close> and \<^verbatim>\<open>localStorage\<close> as they were.
\<close>

theorem login_failure_atomic:
  "\<not> ok r \<Longrightarrow>
   (case login env (Resolved r) uname password (a, b) of
      (result, a', b') \<Rightarrow>
        result = Inl AuthenticationFailed \<and> a' = a \<and> localStorage b' = localStorage b)"
  by (simp add: login_def AuthenticationFailed_def)

theorem login_failure_atomic_witness:
  "\<not> ok \<lparr>status = 401, json = Some Map.empty\<rparr> \<and>
   login None (Resolved \<lparr>status = 401, json = Some Map.empty\<rparr>) ''bob'' ''wrong''
     (\<lparr>token = Some ''t0k'', username = Some ''alice''\<rparr>,
      \<lparr>localStorage = [''access_token'' \<mapsto> ''t0k'', ''username'' \<mapsto> ''alice''], network = []\<rparr>)
   = (Inl (Error ''Invalid username or password''),
      \<lparr>token = Some ''t0k'', username = Some ''alice''\<rparr>,
      \<lparr>localStorage = [''access_token'' \<mapsto> ''t0k'', ''username'' \<mapsto> ''alice''],
       network = [login_request None ''bob'' ''wrong'']\<rparr>)"
  using login_failure_atomic [where r = "\<lparr>status = 401, json = Some Map.empty\<rparr>" and env = None
      and uname = "''bob''" and password = "''wrong''"
      and a = "\<lparr>token = Some ''t0k'', username = Some ''alice''\<rparr>"
      and b = "\<lparr>localStorage = [''access_token'' \<mapsto> ''t0k'', ''username'' \<mapsto> ''alice''], network = []\<rparr>"]
  by (simp add: login_def ok_def AuthenticationFailed_def)

text \<open>
  Claim C5. For every \<open>login\<close> whose request is answered with a success status and a
  body that has an \<^verbatim>\<open>access_token\<close>, the call resolves, \<open>token\<close> becomes that
  \<^verbatim>\<open>access_token\<close>, \<open>username\<close> becomes the submitted user name, and both are stored
  under the keys \<^verbatim>\<open>access_token\<close> and \<^verbatim>\<open>username\<close> (nothing else in storage changes).
\<close>

theorem login_success:
  "ok r \<Longrightarrow> json r = Some data \<Longrightarrow> data ''access_token'' = Some (JString t) \<Longrightarrow>
   (case login env (Resolved r) uname password (a, b) of
      (result, a', b') \<Rightarrow>
        result = Inr () \<and> token a' = Some t \<and> username a' = Some uname \<and>
        localStorage b' = (localStorage b)(''access_token'' \<mapsto> t, ''username'' \<mapsto> uname))"
  by (simp add: login_def String_of_def string_value_def)

theorem login_success_witness:
  "ok \<lparr>status = 200, json = Some [''access_token'' \<mapsto> JString ''t0k'']\<rparr> \<and>
   json \<lparr>status = 200, json = Some [''access_token'' \<mapsto> JString ''t0k'']\<rparr>
     = Some [''access_token'' \<mapsto> JString ''t0k''] \<and>
   [''access_token'' \<mapsto> JString ''t0k''] ''access_token'' = Some (JString ''t0k'') \<and>
   login None (Resolved \<lparr>status = 200, json = Some [''access_token'' \<mapsto> JString ''t0k'']\<rparr>)
     ''bob'' ''pw''
     (\<lparr>token = None, username = None\<rparr>, \<lparr>localStorage = Map.empty, network = []\<rparr>)
   = (Inr (),
      \<lparr>token = Some ''t0k'', username = Some ''bob''\<rparr>,
      \<lparr>localStorage = [''access_token'' \<mapsto> ''t0k'', ''username'' \<mapsto> ''bob''],
       network = [login_request None ''bob'' ''pw'']\<rparr>)"
  using login_success
    [where r = "\<lparr>status = 200, json = Some [''access_token'' \<mapsto> JString ''t0k'']\<rparr>"
      and data = "[''access_token'' \<mapsto> JString ''t0k'']" and t = "''t0k''" and env = None
      and uname = "''bob''" and password = "''pw''"
      and a = "\<lparr>token = None, username = None\<rparr>"
      and b = "\<lparr>localStorage = Map.empty, network = []\<rparr>"]
  by (simp add: login_def ok_def String_of_def string_value_def)

text \<open>
  A stronger shape than the invariant: the session is logged out with both fields
  \<^verbatim>\<open>null\<close>, or logged in with both fields non-empty strings. Mounting establishes it;
  \<open>logout\<close> and a well-formed \<open>login\<close> keep it.
\<close>

lemma session_shape_mount:
  "(token (fst (AuthProvider_mount b)) = None \<and> username (fst (AuthProvider_mount b)) = None) \<or>
   (truthy (token (fst (AuthProvider_mount b))) \<and> truthy (username (fst (AuthProvider_mount b))))"
  by (simp add: AuthProvider_mount_def rehydrate_def initial_auth_def Let_def)

lemma session_shape_apply_op:
  assumes "(token (fst s) = None \<and> username (fst s) = None) \<or>
           (truthy (token (fst s)) \<and> truthy (username (fst s)))"
    and "well_formed_login op"
  shows "(token (fst (apply_op env s op)) = None \<and> username (fst (apply_op env s op)) = None) \<or>
         (truthy (token (fst (apply_op env s op))) \<and> truthy (username (fst (apply_op env s op))))"
proof (cases op)
  case (Login res uname password)
  obtain a b where s: "s = (a, b)" by (cases s)
  show ?thesis
  proof (cases res)
    case Rejected
    with assms(1) Login s show ?thesis by (simp add: login_def Let_def)
  next
    case (Resolved r)
    show ?thesis
    proof (cases "ok r")
      case False
      with assms(1) Login s Resolved show ?thesis by (simp add: login_def Let_def)
    next
      case True
      show ?thesis
      proof (cases "json r")
        case None
        with assms(1) Login s Resolved True show ?thesis by (simp add: login_def Let_def)
      next
        case (Some data)
        with assms(2) Login Resolved True
        have "truthy (string_value (data ''access_token''))" and "uname \<noteq> []" by simp_all
        with Login s Resolved True Some show ?thesis
          by (simp add: login_def Let_def truthy_def)
      qed
    qed
  qed
next
  case Logout
  obtain a b where "s = (a, b)" by (cases s)
  with Logout show ?thesis by (simp add: logout_def)
qed

lemma session_shape_foldl:
  "(token (fst s) = None \<and> username (fst s) = None) \<or>
   (truthy (token (fst s)) \<and> truthy (username (fst s))) \<Longrightarrow>
   list_all well_formed_login ops \<Longrightarrow>
   (token (fst (foldl (apply_op env) s ops)) = None \<and>
    username (fst (foldl (apply_op env) s ops)) = None) \<or>
   (truthy (token (fst (foldl (apply_op env) s ops))) \<and>
    truthy (username (fst (foldl (apply_op env) s ops))))"
proof (induction ops arbitrary: s)
  case Nil
  then show ?case by simp
next
  case (Cons op ops)
  from Cons.prems have "well_formed_login op" and rest: "list_all well_formed_login ops"
    by simp_all
  with Cons.prems(1) have
    "(token (fst (apply_op env s op)) = None \<and> username (fst (apply_op env s op)) = None) \<or>
     (truthy (token (fst (apply_op env s op))) \<and> truthy (username (fst (apply_op env s op))))"
    by (intro session_shape_apply_op)
  from Cons.IH [OF this rest] show ?case by simp
qed

text \<open>
  Claim C6 says that the session invariant holds in every state reachable by mounting,
  \<open>login\<close> and \<open>logout\<close>. \<open>login\<close> stores \<^verbatim>\<open>data.access_token\<close> unchecked: after a
  success response whose body has no \<^verbatim>\<open>access_token\<close>, \<open>token\<close> is \<^verbatim>\<open>undefined\<close> and
  \<open>username\<close> is set.
\<close>

theorem session_invariant_counterexample:
  "\<not> session_invariant (fst (run None
      [Login (Resolved \<lparr>status = 200, json = Some Map.empty\<rparr>) ''bob'' ''pw'']
      \<lparr>localStorage = Map.empty, network = []\<rparr>))"
  by (simp add: run_def AuthProvider_mount_def rehydrate_def initial_auth_def truthy_def
      login_def Let_def ok_def session_invariant_def string_value_def)

text \<open>
  Claim C6, as amended. From every initial storage, also one that holds only one of the
  two fields, the invariant holds after mounting and after every run of \<open>login\<close> and
  \<open>logout\<close> in which each login answered with a success status submitted a non-empty
  user name and received a non-empty \<^verbatim>\<open>access_token\<close>: \<open>token\<close> and \<open>username\<close> are
  both non-empty strings or both not, and both \<^verbatim>\<open>null\<close> or both not.
\<close>

theorem session_invariant_run:
  "list_all well_formed_login ops \<Longrightarrow>
   session_invariant (fst (run env ops b)) \<and>
   (token (fst (run env ops b)) = None) = (username (fst (run env ops b)) = None)"
proof -
  assume "list_all well_formed_login ops"
  with session_shape_mount [of b]
  have "(token (fst (run env ops b)) = None \<and> username (fst (run env ops b)) = None) \<or>
        (truthy (token (fst (run env ops b))) \<and> truthy (username (fst (run env ops b))))"
    unfolding run_def by (rule session_shape_foldl)
  then show ?thesis
    by (auto simp: session_invariant_def truthy_def)
qed

theorem session_invariant_run_witness:
  "list_all well_formed_login
     [Logout,
      Login (Resolved \<lparr>status = 401, json = Some Map.empty\<rparr>) ''eve'' ''guess'',
      Login (Resolved \<lparr>status = 200, json = Some [''access_token'' \<mapsto> JString ''t0k'']\<rparr>)
        ''bob'' ''pw''] \<and>
   fst (run None
     [Logout,
      Login (Resolved \<lparr>status = 401, json = Some Map.empty\<rparr>) ''eve'' ''guess'',
      Login (Resolved \<lparr>status = 200, json = Some [''access_token'' \<mapsto> JString ''t0k'']\<rparr>)
        ''bob'' ''pw'']
     \<lparr>localStorage = [''access_token'' \<mapsto> ''old''], network = []\<rparr>)
   = \<lparr>token = Some ''t0k'', username = Some ''bob''\<rparr> \<and>
   session_invariant \<lparr>token = Some ''t0k'', username = Some ''bob''\<rparr>"
proof -
  let ?ops = "[Logout,
      Login (Resolved \<lparr>status = 401, json = Some Map.empty\<rparr>) ''eve'' ''guess'',
      Login (Resolved \<lparr>status = 200, json = Some [''access_token'' \<mapsto> JString ''t0k'']\<rparr>)
        ''bob'' ''pw'']"
  let ?b = "\<lparr>localStorage = [''access_token'' \<mapsto> ''old''], network = []\<rparr>"
  have h: "list_all well_formed_login ?ops"
    by (simp add: ok_def string_value_def truthy_def)
  have e: "fst (run None ?ops ?b) = \<lparr>token = Some ''t0k'', username = Some ''bob''\<rparr>"
    by (simp add: run_def AuthProvider_mount_def rehydrate_def initial_auth_def truthy_def
        login_def logout_def Let_def ok_def string_value_def)
  from session_invariant_run [OF h, of None ?b] h e show ?thesis by simp
qed

text \<open>
  Claim C7. For every prior state, \<open>logout\<close> clears \<open>token\<close> and \<open>username\<close> and removes
  both stored fields, and a second \<open>logout\<close> changes nothing more.
\<close>

theorem logout_clears_idempotent:
  "(case logout (a, b) of
      (a', b') \<Rightarrow>
        token a' = None \<and> username a' = None \<and>
        localStorage b' ''access_token'' = None \<and> localStorage b' ''username'' = None) \<and>
   logout (logout (a, b)) = logout (a, b)"
  by (simp add: logout_def)

text \<open>
  Claim C10. Mounting the provider only reads \<^verbatim>\<open>localStorage\<close>: for every initial content
  the storage (and the network log) afterwards is the one before, and unless both fields
  were stored the provider stays logged out.
\<close>

theorem mount_reads_only:
  "(case AuthProvider_mount b of
      (a, b') \<Rightarrow>
        localStorage b' = localStorage b \<and> network b' = network b \<and>
        (\<not> (localStorage b ''access_token'' \<noteq> None \<and> localStorage b ''username'' \<noteq> None)
           \<longrightarrow> token a = None \<and> username a = None))"
  by (auto simp: AuthProvider_mount_def rehydrate_def initial_auth_def truthy_def Let_def)

theorem mount_reads_only_witness:
  "AuthProvider_mount \<lparr>localStorage = [''access_token'' \<mapsto> ''t0k''], network = []\<rparr>
   = (\<lparr>token = None, username = None\<rparr>,
      \<lparr>localStorage = [''access_token'' \<mapsto> ''t0k''], network = []\<rparr>)"
  using mount_reads_only [of "\<lparr>localStorage = [''access_token'' \<mapsto> ''t0k''], network = []\<rparr>"]
  by (simp add: AuthProvider_mount_def rehydrate_def initial_auth_def truthy_def)

section \<open>Chat page\<close>

text \<open>
  Whatever was sent, and whatever a backend would answer, the reply that the page appends
  is its placeholder.
\<close>

lemma handleSendMessage_then_resolved:
  "messages (handleSendMessage_resolved (handleSendMessage c s)) =
     messages s @ [\<lparr>role = User, content = c\<rparr>, assistantMessage]"
  by (simp add: handleSendMessage_def handleSendMessage_resolved_def)

text \<open>
  Claim C8. Starting from an empty log, a successful send of \<^verbatim>\<open>hello\<close> that the backend
  answers with \<^verbatim>\<open>{response:"hi"}\<close> is to leave the log \<^verbatim>\<open>user hello\<close>, \<^verbatim>\<open>assistant hi\<close>.
  At that input the transport does return the body \<^verbatim>\<open>{response:"hi"}\<close>, but the page
  does not call it: the log after \<open>handleSendMessage\<close> and the resolution of its
  \<^verbatim>\<open>await\<close> is the user's \<^verbatim>\<open>hello\<close> followed by the placeholder reply, which is not
  \<^verbatim>\<open>assistant hi\<close>.
\<close>

theorem round_trip_placeholder:
  "fst (sendChatMessage None
     (Resolved \<lparr>status = 200, json = Some [''response'' \<mapsto> JString ''hi'']\<rparr>) (utf16 ''hello'')
     \<lparr>localStorage = [''access_token'' \<mapsto> ''t0k''], network = []\<rparr>)
   = Inr [''response'' \<mapsto> JString ''hi''] \<and>
   messages (handleSendMessage_resolved (handleSendMessage (utf16 ''hello'') initial_Index))
   = [\<lparr>role = User, content = utf16 ''hello''\<rparr>, assistantMessage] \<and>
   messages (handleSendMessage_resolved (handleSendMessage (utf16 ''hello'') initial_Index))
   \<noteq> [\<lparr>role = User, content = utf16 ''hello''\<rparr>, \<lparr>role = Assistant, content = utf16 ''hi''\<rparr>]"
proof -
  have transport: "fst (sendChatMessage None
     (Resolved \<lparr>status = 200, json = Some [''response'' \<mapsto> JString ''hi'']\<rparr>) (utf16 ''hello'')
     \<lparr>localStorage = [''access_token'' \<mapsto> ''t0k''], network = []\<rparr>)
   = Inr [''response'' \<mapsto> JString ''hi'']"
    by (simp add: sendChatMessage_def truthy_def ok_def Let_def)
  have log: "messages (handleSendMessage_resolved (handleSendMessage (utf16 ''hello'') initial_Index))
   = [\<lparr>role = User, content = utf16 ''hello''\<rparr>, assistantMessage]"
    by (simp add: handleSendMessage_then_resolved initial_Index_def)
  have "length (content assistantMessage) \<noteq> length (utf16 ''hi'')"
    by (simp add: assistantMessage_def utf16_def)
  then have "assistantMessage \<noteq> \<lparr>role = Assistant, content = utf16 ''hi''\<rparr>"
  proof (rule contrapos_nn)
    assume eq: "assistantMessage = \<lparr>role = Assistant, content = utf16 ''hi''\<rparr>"
    have "content assistantMessage = utf16 ''hi''"
      using arg_cong [OF eq, of content] by (simp only: Message.simps)
    then show "length (content assistantMessage) = length (utf16 ''hi'')" by simp
  qed
  with transport log show ?thesis by simp
qed

text \<open>
  The busy flag is set exactly while a send is outstanding, and there is never more than
  one.
\<close>

lemma busy_flag_invariant:
  "reachable s \<Longrightarrow> outstanding (snd s) \<le> 1 \<and> isLoading (snd s) = (outstanding (snd s) = 1)"
proof (induction rule: reachable.induct)
  case init
  show ?case by (simp add: initial_Index_def)
next
  case (change s v)
  then show ?case by (simp add: handleChange_def case_prod_beta)
next
  case (submit s)
  then show ?case
    by (auto simp: handleSubmit_def handleSendMessage_def case_prod_beta)
next
  case (keydown s key shiftKey)
  then show ?case
    by (auto simp: handleKeyDown_def handleSubmit_def handleSendMessage_def case_prod_beta)
next
  case (resolve s)
  then show ?case by (auto simp: handleSendMessage_resolved_def)
next
  case (reject s)
  then show ?case by (auto simp: handleSendMessage_rejected_def)
qed

text \<open>
  Claim C9. In every reachable state of the page at most one send is in flight, and while
  one is, the busy flag is set and a submit (by the button or by the Enter key) starts no
  second one: it leaves the state as it is.
\<close>

theorem at_most_one_send_in_flight:
  "reachable s \<Longrightarrow>
   outstanding (snd s) \<le> 1 \<and>
   (outstanding (snd s) = 1 \<longrightarrow>
      isLoading (snd s) \<and>
      handleSubmit handleSendMessage (isLoading (snd s)) s = s \<and>
      handleKeyDown key shiftKey handleSendMessage (isLoading (snd s)) s = s)"
proof -
  assume "reachable s"
  then have "outstanding (snd s) \<le> 1 \<and> isLoading (snd s) = (outstanding (snd s) = 1)"
    by (rule busy_flag_invariant)
  then show ?thesis
    by (cases s rule: prod.exhaust) (simp add: handleSubmit_def handleKeyDown_def)
qed

theorem at_most_one_send_in_flight_witness:
  "reachable (utf16 ''again'',
      \<lparr>messages = [\<lparr>role = User, content = utf16 ''hello''\<rparr>], isLoading = True,
       toasts = [], outstanding = 1\<rparr>) \<and>
   handleSubmit handleSendMessage True
     (utf16 ''again'',
      \<lparr>messages = [\<lparr>role = User, content = utf16 ''hello''\<rparr>], isLoading = True,
       toasts = [], outstanding = 1\<rparr>)
   = (utf16 ''again'',
      \<lparr>messages = [\<lparr>role = User, content = utf16 ''hello''\<rparr>], isLoading = True,
       toasts = [], outstanding = 1\<rparr>)"
proof -
  let ?s = "(utf16 ''again'',
      \<lparr>messages = [\<lparr>role = User, content = utf16 ''hello''\<rparr>], isLoading = True,
       toasts = [], outstanding = 1\<rparr>)"
  have "reachable (handleChange (utf16 ''again'')
     (handleSubmit handleSendMessage
        (isLoading (snd (handleChange (utf16 '' hello '') ([], initial_Index))))
        (handleChange (utf16 '' hello '') ([], initial_Index))))"
    by (intro reachable.change reachable.submit reachable.init)
  then have r: "reachable ?s"
    by (simp add: handleChange_def handleSubmit_def handleSendMessage_def initial_Index_def
        trim_def is_space_def utf16_def)
  from at_most_one_send_in_flight [OF r] r show ?thesis by simp
qed

end
